theory Spec2Isabelle
  imports Complex_Main "HOL-Library.AList"
begin

section \<open>The board component (frontend/src/pages/Auth.tsx, component Board)\<close>

text \<open>
  The canvas objects follow the TypeScript interfaces of the file one by one; the
  constructor is the \<^verbatim>\<open>type\<close> tag, the first argument is the \<^verbatim>\<open>id\<close>.
  JavaScript numbers are read as reals: no property below depends on their rounding.
  An optional field (\<^verbatim>\<open>dash?\<close>) is an option. The text a participant types
  (\<^verbatim>\<open>textInput\<close>, and the \<^verbatim>\<open>text\<close> of a text object made from it) is kept as the list
  of its UTF-16 code units, because \<^verbatim>\<open>trim\<close> looks at them; every other string is only
  compared and concatenated.
\<close>

type_synonym jsText = "nat list"

datatype canvasObject =
    DrawLine string "real list" string real real "real list option"
  | EraserMark string "real list" real
  | HighlightLine string "real list" string real
  | RectShape string real real real real string
  | CircleShape string real real real string
  | TriangleShape string "real list" string
  | DiamondShape string real real real string
  | ArrowShape string "real list" string real
  | StraightLine string "real list" string real "real list option"
  | TextShape string real real jsText string real string bool bool
  | StickyNote string real real string string
  | ImageShape string real real real real string

fun objId :: "canvasObject \<Rightarrow> string" where
  "objId (DrawLine i _ _ _ _ _) = i"
| "objId (EraserMark i _ _) = i"
| "objId (HighlightLine i _ _ _) = i"
| "objId (RectShape i _ _ _ _ _) = i"
| "objId (CircleShape i _ _ _ _) = i"
| "objId (TriangleShape i _ _) = i"
| "objId (DiamondShape i _ _ _ _) = i"
| "objId (ArrowShape i _ _ _) = i"
| "objId (StraightLine i _ _ _ _) = i"
| "objId (TextShape i _ _ _ _ _ _ _ _) = i"
| "objId (StickyNote i _ _ _ _) = i"
| "objId (ImageShape i _ _ _ _ _) = i"

datatype toolType =
    Pen | Eraser | Highlight | Rectangle | Circle | Triangle | Diamond | Arrow
  | Straightline | TextTool | Sticky | ImageTool

datatype lineStyle = Solid | Dashed | Dotted

record page =
  pageId :: string
  pageName :: string
  pageObjects :: "canvasObject list"

text \<open>
  The state of the component: its \<^verbatim>\<open>useState\<close> cells and the two refs
  (\<^verbatim>\<open>isDrawingRef\<close>, \<^verbatim>\<open>livePointsRef\<close>) that the handlers below read or write.
  Cells that only feed the rendering (preview shape, live points copy, toasts, zoom)
  are left out; \<^verbatim>\<open>hasSocket\<close> says whether \<^verbatim>\<open>socketRef.current\<close> is set, and
  \<^verbatim>\<open>authName\<close> is \<^verbatim>\<open>user?.name\<close>.
\<close>

record board =
  pages :: "page list"
  currentPageId :: string
  tool :: toolType
  color :: string
  strokeWidth :: real
  opacity :: real
  lineStyleOf :: lineStyle
  stickyColor :: string
  fontFamily :: string
  fontSize :: real
  bold :: bool
  italic :: bool
  shapeStart :: "(real \<times> real) option"
  isDrawingRef :: bool
  livePointsRef :: "real list"
  textPos :: "(real \<times> real) option"
  textInput :: jsText
  undoStack :: "canvasObject list list"
  redoStack :: "canvasObject list list"
  isHost :: bool
  isAllowedToDraw :: bool
  hasSocket :: bool
  authName :: "string option"
  myColor :: string

text \<open>\<^verbatim>\<open>const [isReadOnly] = useState(false)\<close>: the cell has no setter.\<close>

definition isReadOnly :: bool where
  "isReadOnly = False"

text \<open>\<^verbatim>\<open>const canDraw = isHost || isAllowedToDraw\<close>\<close>

definition canDraw :: "board \<Rightarrow> bool" where
  "canDraw b = (isHost b \<or> isAllowedToDraw b)"

text \<open>
  \<^verbatim>\<open>currentPage = pages.find(p => p.id === currentPageId) || pages[0]\<close> and
  \<^verbatim>\<open>objects = currentPage.objects\<close>. With an empty page list \<^verbatim>\<open>pages[0]\<close> is
  undefined and the render throws: \<open>currentPage\<close> is \<open>None\<close> there, and no handler
  exists; \<open>objects\<close> is given the empty list in that state.
\<close>

definition currentPage :: "board \<Rightarrow> page option" where
  "currentPage b =
     (case find (\<lambda>p. pageId p = currentPageId b) (pages b) of
        Some p \<Rightarrow> Some p
      | None \<Rightarrow> (case pages b of [] \<Rightarrow> None | p # _ \<Rightarrow> Some p))"

definition objects :: "board \<Rightarrow> canvasObject list" where
  "objects b = (case currentPage b of Some p \<Rightarrow> pageObjects p | None \<Rightarrow> [])"

text \<open>
  \<^verbatim>\<open>setObjects\<close> is a \<^verbatim>\<open>useCallback\<close> over \<^verbatim>\<open>currentPageId\<close>: it maps over the pages
  and replaces the objects of every page whose id is the captured one. The captured
  id is a parameter here: the local handlers are rebuilt at every render and pass
  the current id, the socket listeners keep the id of the render in which the socket
  effect ran.
\<close>

definition setObjectsAt ::
  "string \<Rightarrow> (canvasObject list \<Rightarrow> canvasObject list) \<Rightarrow> board \<Rightarrow> board" where
  "setObjectsAt pg upd b =
     b\<lparr>pages := map (\<lambda>p. if pageId p = pg then p\<lparr>pageObjects := upd (pageObjects p)\<rparr> else p)
                    (pages b)\<rparr>"

definition setObjects :: "(canvasObject list \<Rightarrow> canvasObject list) \<Rightarrow> board \<Rightarrow> board" where
  "setObjects upd b = setObjectsAt (currentPageId b) upd b"

subsection \<open>Undo and redo\<close>

text \<open>
  \<^verbatim>\<open>saveToUndo(cur)\<close>: \<^verbatim>\<open>setUndoStack(prev => [...prev, cur]); setRedoStack([])\<close>.
\<close>

definition saveToUndo :: "canvasObject list \<Rightarrow> board \<Rightarrow> board" where
  "saveToUndo cur b = b\<lparr>undoStack := undoStack b @ [cur], redoStack := []\<rparr>"

text \<open>
  \<^verbatim>\<open>handleUndo\<close>: with an empty undo stack the updater returns \<^verbatim>\<open>prev\<close> and nothing
  else is set; otherwise the last snapshot is popped, the \<^verbatim>\<open>objects\<close> of the render
  are pushed on the redo stack, and the snapshot becomes the objects of the page.
  \<^verbatim>\<open>handleRedo\<close> mirrors it. The earlier whiteboard component
  (\<^verbatim>\<open>saveToUndoStack\<close>, \<^verbatim>\<open>handleUndo\<close>, \<^verbatim>\<open>handleRedo\<close> over one \<^verbatim>\<open>objects\<close> cell) has
  the same three functions; it is the case of a single page that is the current one.
\<close>

definition handleUndo :: "board \<Rightarrow> board" where
  "handleUndo b =
     (if undoStack b = [] then b
      else
        let s = butlast (undoStack b);
            lastSnap = last (undoStack b);
            b1 = b\<lparr>redoStack := redoStack b @ [objects b]\<rparr>;
            b2 = setObjects (\<lambda>_. lastSnap) b1
        in b2\<lparr>undoStack := s\<rparr>)"

definition handleRedo :: "board \<Rightarrow> board" where
  "handleRedo b =
     (if redoStack b = [] then b
      else
        let s = butlast (redoStack b);
            nextSnap = last (redoStack b);
            b1 = b\<lparr>undoStack := undoStack b @ [objects b]\<rparr>;
            b2 = setObjects (\<lambda>_. nextSnap) b1
        in b2\<lparr>redoStack := s\<rparr>)"

subsection \<open>Local mutating actions\<close>

text \<open>
  What the component sends to the server: \<^verbatim>\<open>socketRef.current?.emit(name, payload)\<close>
  sends nothing when the ref is empty.
\<close>

datatype clientEmit =
    EmitPresenceUpdate bool
  | EmitCursorMove real real string string bool
  | EmitDraw canvasObject
  | EmitAddObject canvasObject
  | EmitStickyUpdate string string

definition emitOn :: "board \<Rightarrow> clientEmit \<Rightarrow> clientEmit list" where
  "emitOn b e = (if hasSocket b then [e] else [])"

text \<open>
  Every site that adds an object runs the same two statements,
  \<^verbatim>\<open>saveToUndo(objects); setObjects(prev => [...prev, obj])\<close>, with the \<^verbatim>\<open>objects\<close> of
  the render; \<open>objs\<close> is that value.
\<close>

definition pushObject :: "canvasObject list \<Rightarrow> canvasObject \<Rightarrow> board \<Rightarrow> board" where
  "pushObject objs obj b = setObjects (\<lambda>prev. prev @ [obj]) (saveToUndo objs b)"

definition addLocal :: "canvasObject \<Rightarrow> board \<Rightarrow> board" where
  "addLocal obj b = pushObject (objects b) obj b"

definition getDash :: "board \<Rightarrow> real list option" where
  "getDash b =
     (if lineStyleOf b = Dashed then Some [12, 6]
      else if lineStyleOf b = Dotted then Some [3, 6]
      else None)"

definition penLike :: "toolType \<Rightarrow> bool" where
  "penLike t = (t = Pen \<or> t = Eraser \<or> t = Highlight)"

definition shapeTool :: "toolType \<Rightarrow> bool" where
  "shapeTool t = (t = Rectangle \<or> t = Circle \<or> t = Triangle \<or> t = Diamond \<or> t = Arrow
                  \<or> t = Straightline)"

text \<open>
  The object of a finished stroke (\<^verbatim>\<open>handleMouseUp\<close>, first block) and of a finished
  shape (second block; \<^verbatim>\<open>null\<close> for a tool that is no shape). \<open>now\<close> is the text of
  \<^verbatim>\<open>Date.now()\<close>.
\<close>

definition strokeObject :: "board \<Rightarrow> string \<Rightarrow> real list \<Rightarrow> canvasObject" where
  "strokeObject b now pts =
     (if tool b = Eraser then EraserMark (''eraser-'' @ now) pts (strokeWidth b * 5)
      else if tool b = Highlight then
        HighlightLine (''hl-'' @ now) pts (color b) (strokeWidth b * 4)
      else DrawLine (''line-'' @ now) pts (color b) (strokeWidth b) (opacity b / 100) (getDash b))"

definition shapeObject ::
  "board \<Rightarrow> string \<Rightarrow> real \<times> real \<Rightarrow> real \<times> real \<Rightarrow> canvasObject option" where
  "shapeObject b now st pos =
     (let sx = fst st; sy = snd st; x = fst pos; y = snd pos; dx = x - sx; dy = y - sy in
      if tool b = Rectangle then
        Some (RectShape (''rect-'' @ now) (min x sx) (min y sy) \<bar>dx\<bar> \<bar>dy\<bar> (color b))
      else if tool b = Circle then
        Some (CircleShape (''circ-'' @ now) sx sy (sqrt (dx * dx + dy * dy) / 2) (color b))
      else if tool b = Arrow then
        Some (ArrowShape (''arrow-'' @ now) [sx, sy, x, y] (color b) (strokeWidth b))
      else if tool b = Straightline then
        Some (StraightLine (''sl-'' @ now) [sx, sy, x, y] (color b) (strokeWidth b) (getDash b))
      else if tool b = Triangle then
        Some (TriangleShape (''tri-'' @ now)
                [sx, sy - \<bar>dy\<bar>, sx - \<bar>dx\<bar> / 2, sy, sx + \<bar>dx\<bar> / 2, sy] (color b))
      else if tool b = Diamond then
        Some (DiamondShape (''dia-'' @ now) sx sy (max \<bar>dx\<bar> \<bar>dy\<bar>) (color b))
      else None)"

text \<open>
  \<^verbatim>\<open>handleMouseDown\<close>: the guard \<^verbatim>\<open>if (!canDraw || isReadOnly) return\<close> comes first;
  \<open>pos\<close> is the result of \<^verbatim>\<open>getPos(e)\<close>.
\<close>

definition handleMouseDown ::
  "(real \<times> real) option \<Rightarrow> string \<Rightarrow> board \<Rightarrow> board \<times> clientEmit list" where
  "handleMouseDown pos now b =
     (if \<not> canDraw b \<or> isReadOnly then (b, [])
      else case pos of
        None \<Rightarrow> (b, [])
      | Some p \<Rightarrow>
          if penLike (tool b) then
            (b\<lparr>isDrawingRef := True, livePointsRef := [fst p, snd p]\<rparr>,
             emitOn b (EmitPresenceUpdate True))
          else if shapeTool (tool b) then (b\<lparr>shapeStart := Some p\<rparr>, [])
          else if tool b = TextTool then (b\<lparr>textPos := Some p, textInput := []\<rparr>, [])
          else if tool b = Sticky then
            (let note = StickyNote (''sticky-'' @ now) (fst p) (snd p)
                          ''Double-click to edit'' (stickyColor b)
             in (pushObject (objects b) note b, emitOn b (EmitAddObject note)))
          else (b, []))"

text \<open>
  \<^verbatim>\<open>handleMouseMove\<close> has no guard: it reports the cursor and, while a stroke is in
  progress, extends the live points.
\<close>

definition handleMouseMove :: "(real \<times> real) option \<Rightarrow> board \<Rightarrow> board \<times> clientEmit list" where
  "handleMouseMove pos b =
     (case pos of
        None \<Rightarrow> (b, [])
      | Some p \<Rightarrow>
          (if penLike (tool b) \<and> isDrawingRef b
           then b\<lparr>livePointsRef := livePointsRef b @ [fst p, snd p]\<rparr> else b,
           emitOn b (EmitCursorMove (fst p) (snd p)
                       (case authName b of
                          None \<Rightarrow> ''Anonymous''
                        | Some n \<Rightarrow> if n = [] then ''Anonymous'' else n)
                       (myColor b) (isDrawingRef b))))"

text \<open>
  \<^verbatim>\<open>handleMouseUp\<close> has no guard either. Its two blocks run one after the other; both
  pass the \<^verbatim>\<open>objects\<close> and read the \<^verbatim>\<open>shapeStart\<close> of the render.
\<close>

definition finishStroke :: "string \<Rightarrow> board \<Rightarrow> board \<times> clientEmit list" where
  "finishStroke now b =
     (if penLike (tool b) \<and> isDrawingRef b then
        (let pts = livePointsRef b;
             b1 = b\<lparr>isDrawingRef := False\<rparr>;
             r = (if 2 \<le> length pts then
                    (let obj = strokeObject b now pts
                     in (pushObject (objects b) obj b1, emitOn b (EmitDraw obj)))
                  else (b1, []))
         in ((fst r)\<lparr>livePointsRef := []\<rparr>, snd r))
      else (b, []))"

definition finishShape ::
  "(real \<times> real) option \<Rightarrow> string \<Rightarrow> board \<Rightarrow> board \<Rightarrow> board \<times> clientEmit list" where
  "finishShape pos now b b1 =
     (case shapeStart b of
        None \<Rightarrow> (b1, [])
      | Some st \<Rightarrow>
          (case pos of
             None \<Rightarrow> (b1, [])
           | Some p \<Rightarrow>
               (let r = (case shapeObject b now st p of
                           None \<Rightarrow> (b1, [])
                         | Some obj \<Rightarrow>
                             (pushObject (objects b) obj b1, emitOn b (EmitAddObject obj)))
                in ((fst r)\<lparr>shapeStart := None\<rparr>, snd r))))"

definition handleMouseUp ::
  "(real \<times> real) option \<Rightarrow> string \<Rightarrow> board \<Rightarrow> board \<times> clientEmit list" where
  "handleMouseUp pos now b =
     (let r1 = finishStroke now b;
          r2 = finishShape pos now b (fst r1)
      in (fst r2, emitOn b (EmitPresenceUpdate False) @ snd r1 @ snd r2))"

text \<open>
  \<^verbatim>\<open>String.prototype.trim\<close> removes from both ends the code units that ECMAScript
  counts as white space or line terminator: tab, line feed, vertical tab, form feed,
  carriage return, space, no-break space, U+1680, U+2000 to U+200A, U+2028, U+2029,
  U+202F, U+205F, U+3000 and U+FEFF (all of them single code units).
  \<^verbatim>\<open>handleTextSubmit\<close> starts with \<^verbatim>\<open>if (!textInput.trim() || !textPos) return\<close>.
\<close>

definition jsSpace :: "nat \<Rightarrow> bool" where
  "jsSpace c =
     (c \<in> set [0x09, 0x0A, 0x0B, 0x0C, 0x0D, 0x20, 0xA0, 0x1680,
                0x2000, 0x2001, 0x2002, 0x2003, 0x2004, 0x2005, 0x2006, 0x2007, 0x2008,
                0x2009, 0x200A, 0x2028, 0x2029, 0x202F, 0x205F, 0x3000, 0xFEFF])"

definition trim :: "jsText \<Rightarrow> jsText" where
  "trim s = rev (dropWhile jsSpace (rev (dropWhile jsSpace s)))"

definition handleTextSubmit :: "string \<Rightarrow> board \<Rightarrow> board \<times> clientEmit list" where
  "handleTextSubmit now b =
     (if trim (textInput b) = [] then (b, [])
      else case textPos b of
        None \<Rightarrow> (b, [])
      | Some p \<Rightarrow>
          (let obj = TextShape (''txt-'' @ now) (fst p) (snd p) (textInput b) (color b)
                       (fontSize b) (fontFamily b) (bold b) (italic b)
           in ((pushObject (objects b) obj b)\<lparr>textPos := None, textInput := []\<rparr>,
               emitOn b (EmitAddObject obj))))"

subsection \<open>Events received from the server\<close>

text \<open>
  The listeners registered in the socket effect. \<open>pg\<close> is the page id their
  \<^verbatim>\<open>setObjects\<close> has captured.
  \<^verbatim>\<open>drawUpdate\<close>, \<^verbatim>\<open>objectAdded\<close>: \<^verbatim>\<open>setObjects(prev => [...prev, d])\<close>;
  \<^verbatim>\<open>stickyUpdated\<close>: the text of every sticky note with that id is replaced;
  \<^verbatim>\<open>drawPermission\<close>: \<^verbatim>\<open>setIsAllowedToDraw(granted)\<close>.
\<close>

definition onDrawUpdate :: "string \<Rightarrow> canvasObject \<Rightarrow> board \<Rightarrow> board" where
  "onDrawUpdate pg d b = setObjectsAt pg (\<lambda>prev. prev @ [d]) b"

definition onObjectAdded :: "string \<Rightarrow> canvasObject \<Rightarrow> board \<Rightarrow> board" where
  "onObjectAdded pg d b = setObjectsAt pg (\<lambda>prev. prev @ [d]) b"

fun withStickyText :: "string \<Rightarrow> string \<Rightarrow> canvasObject \<Rightarrow> canvasObject" where
  "withStickyText i t (StickyNote j x y old bg) =
     (if j = i then StickyNote j x y t bg else StickyNote j x y old bg)"
| "withStickyText i t obj = obj"

definition onStickyUpdated :: "string \<Rightarrow> string \<Rightarrow> string \<Rightarrow> board \<Rightarrow> board" where
  "onStickyUpdated pg i t b = setObjectsAt pg (map (withStickyText i t)) b"

definition onDrawPermission :: "bool \<Rightarrow> board \<Rightarrow> board" where
  "onDrawPermission granted b = b\<lparr>isAllowedToDraw := granted\<rparr>"

subsection \<open>Mouse gestures and concrete states\<close>

text \<open>
  The stage hands its mouse events to the three handlers; a gesture is a list of them,
  run in order, the events sent to the server collected.
\<close>

datatype mouseEvent =
    MouseDown "(real \<times> real) option" string
  | MouseMove "(real \<times> real) option"
  | MouseUp "(real \<times> real) option" string

fun mouseStep :: "mouseEvent \<Rightarrow> board \<Rightarrow> board \<times> clientEmit list" where
  "mouseStep (MouseDown pos now) b = handleMouseDown pos now b"
| "mouseStep (MouseMove pos) b = handleMouseMove pos b"
| "mouseStep (MouseUp pos now) b = handleMouseUp pos now b"

fun runMouse :: "mouseEvent list \<Rightarrow> board \<Rightarrow> board \<times> clientEmit list" where
  "runMouse [] b = (b, [])"
| "runMouse (e # es) b =
     (let r = mouseStep e b; r' = runMouse es (fst r) in (fst r', snd r @ snd r'))"

fun isObjectEmit :: "clientEmit \<Rightarrow> bool" where
  "isObjectEmit (EmitDraw _) = True"
| "isObjectEmit (EmitAddObject _) = True"
| "isObjectEmit _ = False"

text \<open>The page named by \<^verbatim>\<open>currentPageId\<close> is in the page list.\<close>

definition pagePresent :: "board \<Rightarrow> bool" where
  "pagePresent b = (find (\<lambda>p. pageId p = currentPageId b) (pages b) \<noteq> None)"

text \<open>
  The state after mounting: the initial values of the \<^verbatim>\<open>useState\<close> cells, the socket
  created; the signed-in name and the colour drawn from \<^verbatim>\<open>USER_COLORS\<close> are
  parameters.
\<close>

definition initialBoard :: "string option \<Rightarrow> string \<Rightarrow> board" where
  "initialBoard nm col =
     \<lparr>pages = [\<lparr>pageId = ''page-1'', pageName = ''Page 1'', pageObjects = []\<rparr>],
      currentPageId = ''page-1'', tool = Pen, color = ''#00d4ff'', strokeWidth = 3,
      opacity = 100, lineStyleOf = Solid, stickyColor = ''#ffd43b'', fontFamily = ''DM Sans'',
      fontSize = 18, bold = False, italic = False, shapeStart = None, isDrawingRef = False,
      livePointsRef = [], textPos = None, textInput = [], undoStack = [], redoStack = [],
      isHost = False, isAllowedToDraw = False, hasSocket = True, authName = nm,
      myColor = col\<rparr>"

text \<open>A host with something on the redo stack, and the states in which each kind of
  local action is about to complete.\<close>

definition hostBoard :: board where
  "hostBoard =
     (initialBoard (Some ''Ada'') ''#51cf66'')
       \<lparr>isHost := True,
        redoStack := [[RectShape ''rect-0'' 0 0 10 10 ''#00d4ff'']]\<rparr>"

definition strokeBoard :: board where
  "strokeBoard = fst (handleMouseDown (Some (10, 10)) ''1'' hostBoard)"

definition shapeBoard :: board where
  "shapeBoard = fst (handleMouseDown (Some (10, 10)) ''1'' (hostBoard\<lparr>tool := Rectangle\<rparr>))"

definition stickyBoard :: board where
  "stickyBoard = hostBoard\<lparr>tool := Sticky\<rparr>"

definition textBoard :: board where
  "textBoard =
     (fst (handleMouseDown (Some (10, 10)) ''1'' (hostBoard\<lparr>tool := TextTool\<rparr>)))
       \<lparr>textInput := [0x68, 0x69]\<rparr>"

text \<open>
  The host places a sticky note, then a rectangle drawn by a peer arrives; and a host
  who has added a second page and is looking at it.
\<close>

definition peerRect :: canvasObject where
  "peerRect = RectShape ''rect-7'' 5 5 10 10 ''#ff6b6b''"

definition twoPages :: board where
  "twoPages =
     hostBoard\<lparr>pages := pages hostBoard @ [\<lparr>pageId = ''page-2'', pageName = ''Page 2'',
                                               pageObjects = []\<rparr>],
               currentPageId := ''page-2''\<rparr>"

definition afterPeerEvent :: board where
  "afterPeerEvent =
     onObjectAdded ''page-1'' peerRect (fst (handleMouseDown (Some (10, 10)) ''1'' stickyBoard))"

section \<open>The coordinator (backend/src/socket.js)\<close>

text \<open>
  \<^verbatim>\<open>roomUsers\<close> is an object of objects: room id to (socket id to user). Both levels
  are association lists in insertion order, which is the order \<^verbatim>\<open>Object.values\<close>
  lists them in. A socket carries the three properties the handlers store on it
  (\<^verbatim>\<open>currentRoom\<close>, \<^verbatim>\<open>userName\<close>, \<^verbatim>\<open>userColor\<close>, undefined until the first join) and
  \<^verbatim>\<open>joinedRooms\<close>, the rooms socket.io has it in. The transport is socket.io's: a socket
  starts in the room named by its own id, \<^verbatim>\<open>socket.join\<close> adds a room and removes none,
  \<^verbatim>\<open>io.to(r).emit\<close> reaches every connected socket that is in \<open>r\<close>,
  \<^verbatim>\<open>socket.to(r).emit\<close> the same but for the socket itself, and a socket has left all
  its rooms by the time its \<^verbatim>\<open>disconnect\<close> listener runs.
\<close>

record user =
  uid :: string
  uname :: string
  ucolor :: string

record sock =
  currentRoom :: "string option"
  sockUserName :: "string option"
  sockUserColor :: "string option"
  joinedRooms :: "string list"

record server =
  roomUsers :: "(string \<times> (string \<times> user) list) list"
  sockets :: "(string \<times> sock) list"

record chatMessage =
  chatUserId :: string
  chatName :: string
  chatText :: string
  chatTime :: string
  chatColor :: string

text \<open>
  What a client may send. \<^verbatim>\<open>socket.js\<close> registers a listener for \<^verbatim>\<open>joinRoom\<close>,
  \<^verbatim>\<open>cursorMove\<close>, \<^verbatim>\<open>draw\<close>, \<^verbatim>\<open>addObject\<close>, \<^verbatim>\<open>chatMessage\<close> and \<^verbatim>\<open>disconnect\<close>; the
  board component also emits \<^verbatim>\<open>setDrawPermission\<close> (target, granted, board id),
  \<^verbatim>\<open>stickyUpdate\<close> (object id, text), \<^verbatim>\<open>presenceUpdate\<close>, \<^verbatim>\<open>typing\<close> and
  \<^verbatim>\<open>boardNameChange\<close>, for which the file has no listener.
\<close>

datatype clientEvent =
    Connect
  | JoinRoom string "string option" "string option"
  | CursorMove real real "string option" "string option"
  | Draw canvasObject
  | AddObject canvasObject
  | ChatMessage "string option" chatMessage
  | Disconnect
  | SetDrawPermission string bool "string option"
  | StickyUpdate string string
  | PresenceUpdate bool
  | Typing "string option" string
  | BoardNameChange "string option" string

datatype serverEmit =
    UserJoined string
  | RoomUsers "user list"
  | CursorUpdate string string string real real
  | DrawUpdate canvasObject
  | ObjectAdded canvasObject
  | ChatMessageOut chatMessage
  | CursorRemove string
  | UserLeft string

text \<open>A value read as a condition: undefined and the empty string are false.\<close>

fun truthy :: "string option \<Rightarrow> bool" where
  "truthy None = False"
| "truthy (Some s) = (s \<noteq> [])"

text \<open>\<^verbatim>\<open>a || d\<close> on strings.\<close>

fun orElse :: "string option \<Rightarrow> string \<Rightarrow> string" where
  "orElse None d = d"
| "orElse (Some s) d = (if s = [] then d else s)"

definition roomMembers :: "server \<Rightarrow> string \<Rightarrow> string list" where
  "roomMembers s r = map fst (filter (\<lambda>e. r \<in> set (joinedRooms (snd e))) (sockets s))"

definition ioTo :: "server \<Rightarrow> string \<Rightarrow> serverEmit \<Rightarrow> (string \<times> serverEmit) list" where
  "ioTo s r e = map (\<lambda>t. (t, e)) (roomMembers s r)"

definition socketTo ::
  "server \<Rightarrow> string \<Rightarrow> string \<Rightarrow> serverEmit \<Rightarrow> (string \<times> serverEmit) list" where
  "socketTo s sid r e = map (\<lambda>t. (t, e)) (filter (\<lambda>t. t \<noteq> sid) (roomMembers s r))"

definition usersOf :: "server \<Rightarrow> string \<Rightarrow> (string \<times> user) list option" where
  "usersOf s r = map_of (roomUsers s) r"

text \<open>
  The \<^verbatim>\<open>joinRoom\<close> listener of socket \<open>sid\<close> (\<open>k\<close> is the socket): the socket joins
  the room, the room's entry is created when it is missing, the user is stored under
  the socket id, the socket remembers room, name and colour, the others are told
  \<^verbatim>\<open>userJoined\<close> and the whole room gets \<^verbatim>\<open>roomUsers\<close>.
\<close>

definition joinRoom ::
  "string \<Rightarrow> sock \<Rightarrow> string \<Rightarrow> string option \<Rightarrow> string option \<Rightarrow> server
   \<Rightarrow> server \<times> (string \<times> serverEmit) list" where
  "joinRoom sid k boardId userName userColor s =
     (let members = (case usersOf s boardId of None \<Rightarrow> [] | Some m \<Rightarrow> m);
          usr = \<lparr>uid = sid, uname = orElse userName (''User-'' @ take 4 sid),
                 ucolor = orElse userColor ''#00d4ff''\<rparr>;
          members' = AList.update sid usr members;
          k' = k\<lparr>currentRoom := Some boardId, sockUserName := Some (uname usr),
                 sockUserColor := Some (ucolor usr),
                 joinedRooms := List.insert boardId (joinedRooms k)\<rparr>;
          s' = s\<lparr>roomUsers := AList.update boardId members' (roomUsers s),
                 sockets := AList.update sid k' (sockets s)\<rparr>
      in (s', socketTo s' sid boardId (UserJoined (uname usr))
              @ ioTo s' boardId (RoomUsers (map snd members'))))"

text \<open>
  The relaying listeners: each returns at once when the room id is false
  (\<^verbatim>\<open>if (!boardId) return\<close>). \<^verbatim>\<open>chatMessage\<close> takes the room id from the payload and
  passes the rest of the payload on.
\<close>

definition cursorMove ::
  "string \<Rightarrow> sock \<Rightarrow> real \<Rightarrow> real \<Rightarrow> string option \<Rightarrow> string option \<Rightarrow> server
   \<Rightarrow> server \<times> (string \<times> serverEmit) list" where
  "cursorMove sid k x y nm col s =
     (if \<not> truthy (currentRoom k) then (s, [])
      else (s, socketTo s sid (orElse (currentRoom k) [])
                 (CursorUpdate sid
                    (orElse nm (orElse (sockUserName k) ''Anonymous''))
                    (orElse col (orElse (sockUserColor k) ''#00d4ff'')) x y)))"

definition draw ::
  "string \<Rightarrow> sock \<Rightarrow> canvasObject \<Rightarrow> server \<Rightarrow> server \<times> (string \<times> serverEmit) list" where
  "draw sid k d s =
     (if \<not> truthy (currentRoom k) then (s, [])
      else (s, socketTo s sid (orElse (currentRoom k) []) (DrawUpdate d)))"

definition addObject ::
  "string \<Rightarrow> sock \<Rightarrow> canvasObject \<Rightarrow> server \<Rightarrow> server \<times> (string \<times> serverEmit) list" where
  "addObject sid k d s =
     (if \<not> truthy (currentRoom k) then (s, [])
      else (s, socketTo s sid (orElse (currentRoom k) []) (ObjectAdded d)))"

definition chatMessageIn ::
  "string \<Rightarrow> string option \<Rightarrow> chatMessage \<Rightarrow> server \<Rightarrow> server \<times> (string \<times> serverEmit) list"
  where
  "chatMessageIn sid boardId msg s =
     (if \<not> truthy boardId then (s, [])
      else (s, socketTo s sid (orElse boardId []) (ChatMessageOut msg)))"

text \<open>
  The \<^verbatim>\<open>disconnect\<close> listener, run in the state \<open>s\<close> from which the socket is already
  gone: when the socket's room id is true and the room has an entry, the socket's user
  is deleted from it, the room is told \<^verbatim>\<open>cursorRemove\<close>, \<^verbatim>\<open>userLeft\<close> (if the user
  had a name) and \<^verbatim>\<open>roomUsers\<close>, and an entry left without keys is deleted.
\<close>

definition disconnect ::
  "string \<Rightarrow> sock \<Rightarrow> server \<Rightarrow> server \<times> (string \<times> serverEmit) list" where
  "disconnect sid k s =
     (if \<not> truthy (currentRoom k) then (s, [])
      else
        let boardId = orElse (currentRoom k) [] in
        case usersOf s boardId of
          None \<Rightarrow> (s, [])
        | Some members \<Rightarrow>
            (let userName = map_option uname (map_of members sid);
                 members' = AList.delete sid members;
                 s1 = s\<lparr>roomUsers := AList.update boardId members' (roomUsers s)\<rparr>;
                 out = ioTo s1 boardId (CursorRemove sid)
                       @ (if truthy userName
                          then ioTo s1 boardId (UserLeft (orElse userName [])) else [])
                       @ ioTo s1 boardId (RoomUsers (map snd members'))
             in (if members' = []
                 then s1\<lparr>roomUsers := AList.delete boardId (roomUsers s1)\<rparr> else s1,
                 out)))"

text \<open>
  One inbound event of connection \<open>sid\<close>. A new connection gets a socket in its own
  room; an event of a connection the server does not have, and an event without
  listener, change nothing and send nothing.
\<close>

definition newSocket :: "string \<Rightarrow> sock" where
  "newSocket sid =
     \<lparr>currentRoom = None, sockUserName = None, sockUserColor = None, joinedRooms = [sid]\<rparr>"

definition step ::
  "server \<Rightarrow> string \<times> clientEvent \<Rightarrow> server \<times> (string \<times> serverEmit) list" where
  "step s ev =
     (let sid = fst ev in
      case map_of (sockets s) sid of
        None \<Rightarrow>
          (case snd ev of
             Connect \<Rightarrow> (s\<lparr>sockets := sockets s @ [(sid, newSocket sid)]\<rparr>, [])
           | _ \<Rightarrow> (s, []))
      | Some k \<Rightarrow>
          (case snd ev of
             JoinRoom boardId userName userColor \<Rightarrow> joinRoom sid k boardId userName userColor s
           | CursorMove x y nm col \<Rightarrow> cursorMove sid k x y nm col s
           | Draw d \<Rightarrow> draw sid k d s
           | AddObject d \<Rightarrow> addObject sid k d s
           | ChatMessage boardId msg \<Rightarrow> chatMessageIn sid boardId msg s
           | Disconnect \<Rightarrow> disconnect sid k (s\<lparr>sockets := AList.delete sid (sockets s)\<rparr>)
           | _ \<Rightarrow> (s, [])))"

fun run ::
  "server \<Rightarrow> (string \<times> clientEvent) list \<Rightarrow> server \<times> (string \<times> serverEmit) list" where
  "run s [] = (s, [])"
| "run s (ev # evs) =
     (let r = step s ev; r' = run (fst r) evs in (fst r', snd r @ snd r'))"

definition emptyServer :: server where
  "emptyServer = \<lparr>roomUsers = [], sockets = []\<rparr>"

text \<open>The room id the socket of a connection holds, if the connection exists.\<close>

definition currentRoomOf :: "server \<Rightarrow> string \<Rightarrow> string option" where
  "currentRoomOf s sid =
     (case map_of (sockets s) sid of None \<Rightarrow> None | Some k \<Rightarrow> currentRoom k)"

text \<open>Every room entry of the registry has at least one key.\<close>

definition entriesNonEmpty :: "server \<Rightarrow> bool" where
  "entriesNonEmpty s = list_all (\<lambda>e. snd e \<noteq> []) (roomUsers s)"

text \<open>
  The connections stored under a room in the registry, and the connections whose
  socket holds that room as its current one; a list of events in which every
  \<^verbatim>\<open>joinRoom\<close> names a room (a non-empty id) and comes from a connection that has not
  joined before; and the registry being exact: for every room the two sets agree, and
  no socket holds the empty id.
\<close>

definition registered :: "server \<Rightarrow> string \<Rightarrow> string set" where
  "registered s r = (case usersOf s r of None \<Rightarrow> {} | Some m \<Rightarrow> fst ` set m)"

definition present :: "server \<Rightarrow> string \<Rightarrow> string set" where
  "present s r = set (filter (\<lambda>sid. currentRoomOf s sid = Some r) (map fst (sockets s)))"

fun joinsOnce :: "server \<Rightarrow> (string \<times> clientEvent) list \<Rightarrow> bool" where
  "joinsOnce s [] = True"
| "joinsOnce s (ev # evs) =
     ((case snd ev of
         JoinRoom r _ _ \<Rightarrow> r \<noteq> [] \<and> currentRoomOf s (fst ev) = None
       | _ \<Rightarrow> True)
      \<and> joinsOnce (fst (step s ev)) evs)"

abbreviation exact :: "server \<Rightarrow> bool" where
  "exact s \<equiv> (\<forall>r. registered s r = present s r) \<and> (\<forall>sid. currentRoomOf s sid \<noteq> Some [])"

subsection \<open>Concrete sessions\<close>

text \<open>Host \<open>H\<close> and viewers \<open>V\<close> and \<open>W\<close> in room \<open>abc123\<close>, and \<open>X\<close> in another room.\<close>

definition lobby :: server where
  "lobby =
     fst (run emptyServer
       [(''H'', Connect), (''V'', Connect), (''W'', Connect), (''X'', Connect),
        (''H'', JoinRoom ''abc123'' (Some ''Hana'') (Some ''#ffd43b'')),
        (''V'', JoinRoom ''abc123'' (Some ''Vik'') None),
        (''W'', JoinRoom ''abc123'' None None),
        (''X'', JoinRoom ''other'' (Some ''Xu'') None)])"

text \<open>
  Connection \<open>S\<close> joins room \<open>A\<close>, then room \<open>B\<close>, then disconnects; afterwards a
  new connection \<open>T\<close> arrives.
\<close>

definition rehomedGone :: server where
  "rehomedGone =
     fst (run emptyServer
       [(''S'', Connect),
        (''S'', JoinRoom ''A'' (Some ''Sam'') None),
        (''S'', JoinRoom ''B'' (Some ''Sam'') None),
        (''S'', Disconnect)])"

section \<open>A participant's session\<close>

text \<open>
  What reaches a board over its lifetime. From the network it receives what the
  coordinator sends, and the coordinator sends only the events of \<open>serverEmit\<close>:
  \<^verbatim>\<open>drawUpdate\<close> and \<^verbatim>\<open>objectAdded\<close> change the pages, the others feed the user list,
  the cursors, the chat and the toasts, which are not part of the state kept here.
  The listeners for \<^verbatim>\<open>stickyUpdated\<close>, \<^verbatim>\<open>drawPermission\<close> and \<^verbatim>\<open>allowedUsers\<close> are
  registered, but \<^verbatim>\<open>socket.js\<close> never emits these events.
\<close>

definition onServerEvent :: "string \<Rightarrow> serverEmit \<Rightarrow> board \<Rightarrow> board" where
  "onServerEvent pg e b =
     (case e of
        DrawUpdate d \<Rightarrow> onDrawUpdate pg d b
      | ObjectAdded d \<Rightarrow> onObjectAdded pg d b
      | _ \<Rightarrow> b)"

text \<open>
  The cells \<^verbatim>\<open>isHost\<close>, \<^verbatim>\<open>isAllowedToDraw\<close>, \<^verbatim>\<open>isDrawingRef\<close> and \<^verbatim>\<open>shapeStart\<close> are
  written at these places only: \<^verbatim>\<open>setIsHost(true)\<close> when the owner check resolves,
  \<^verbatim>\<open>setIsAllowedToDraw\<close> in the \<^verbatim>\<open>drawPermission\<close> listener, and the other two in
  \<^verbatim>\<open>handleMouseDown\<close> and \<^verbatim>\<open>handleMouseUp\<close>. The tool is chosen from the tool bar or by
  key, both behind \<^verbatim>\<open>canDraw\<close>. Every other handler of the component (styles, text
  entry, sticky editing, pages, image upload, loading the board) writes other cells:
  it is an update \<open>f\<close> after which these four cells are what they were.
\<close>

datatype boardEvent =
    Mouse mouseEvent
  | Received string serverEmit
  | HostResolved
  | SelectTool toolType
  | Undo
  | Redo
  | TextSubmit string
  | OtherUpdate "board \<Rightarrow> board"

definition keepGestureCells :: "board \<Rightarrow> board \<Rightarrow> board" where
  "keepGestureCells b b' =
     b'\<lparr>isHost := isHost b, isAllowedToDraw := isAllowedToDraw b,
        isDrawingRef := isDrawingRef b, shapeStart := shapeStart b\<rparr>"

fun boardStep :: "boardEvent \<Rightarrow> board \<Rightarrow> board \<times> clientEmit list" where
  "boardStep (Mouse e) b = mouseStep e b"
| "boardStep (Received pg e) b = (onServerEvent pg e b, [])"
| "boardStep HostResolved b = (b\<lparr>isHost := True\<rparr>, [])"
| "boardStep (SelectTool t) b = (if canDraw b then b\<lparr>tool := t\<rparr> else b, [])"
| "boardStep Undo b = (handleUndo b, [])"
| "boardStep Redo b = (handleRedo b, [])"
| "boardStep (TextSubmit now) b = handleTextSubmit now b"
| "boardStep (OtherUpdate f) b = (keepGestureCells b (f b), [])"

fun runBoard :: "boardEvent list \<Rightarrow> board \<Rightarrow> board \<times> clientEmit list" where
  "runBoard [] b = (b, [])"
| "runBoard (e # es) b =
     (let r = boardStep e b; r' = runBoard es (fst r) in (fst r', snd r @ snd r'))"

text \<open>A participant may draw or has neither a stroke nor a shape open.\<close>

definition gestureOk :: "board \<Rightarrow> bool" where
  "gestureOk b = (canDraw b \<or> (\<not> isDrawingRef b \<and> shapeStart b = None))"

text \<open>
  A viewer presses the mouse, receives a peer's rectangle, tries to pick the rectangle
  tool, retitles the first page and moves the mouse.
\<close>

definition viewerSession :: board where
  "viewerSession =
     fst (runBoard
       [Mouse (MouseDown (Some (1, 1)) ''1''),
        Received ''page-1'' (ObjectAdded peerRect),
        SelectTool Rectangle,
        OtherUpdate (\<lambda>b. b\<lparr>pages := map (\<lambda>p. p\<lparr>pageName := ''Notes''\<rparr>) (pages b)\<rparr>),
        Mouse (MouseMove (Some (2, 2)))]
       (initialBoard None ''#00d4ff''))"

section \<open>The board component: facts about pages and stacks\<close>

lemma find_map_page:
  "find (\<lambda>p. pageId p = c)
        (map (\<lambda>p. if pageId p = pg then p\<lparr>pageObjects := u (pageObjects p)\<rparr> else p) ps) =
   map_option (\<lambda>p. if pageId p = pg then p\<lparr>pageObjects := u (pageObjects p)\<rparr> else p)
        (find (\<lambda>p. pageId p = c) ps)"
  by (induction ps) auto

lemma map_page_absent:
  "\<forall>p\<in>set ps. pageId p \<noteq> pg \<Longrightarrow>
   map (\<lambda>p. if pageId p = pg then p\<lparr>pageObjects := u (pageObjects p)\<rparr> else p) ps = ps"
  by (induction ps) auto

lemma objects_setObjects:
  "objects (setObjects u b) = (if pagePresent b then u (objects b) else objects b)"
proof (cases "find (\<lambda>p. pageId p = currentPageId b) (pages b)")
  case None
  then have "\<forall>p\<in>set (pages b). pageId p \<noteq> currentPageId b"
    by (simp add: find_None_iff)
  then have "setObjects u b = b"
    by (simp add: setObjects_def setObjectsAt_def map_page_absent)
  with None show ?thesis by (simp add: pagePresent_def)
next
  case (Some p)
  then have "pageId p = currentPageId b" by (auto simp: find_Some_iff)
  with Some show ?thesis
    by (simp add: pagePresent_def objects_def currentPage_def setObjects_def setObjectsAt_def
        find_map_page)
qed

lemma setObjects_fields [simp]:
  "undoStack (setObjects u b) = undoStack b"
  "redoStack (setObjects u b) = redoStack b"
  "currentPageId (setObjects u b) = currentPageId b"
  by (simp_all add: setObjects_def setObjectsAt_def)

lemma pagePresent_setObjects [simp]: "pagePresent (setObjects u b) = pagePresent b"
  by (simp add: pagePresent_def setObjects_def setObjectsAt_def find_map_page)

lemma pagePresent_upd [simp]:
  "pagePresent (b\<lparr>undoStack := us\<rparr>) = pagePresent b"
  "pagePresent (b\<lparr>redoStack := rs\<rparr>) = pagePresent b"
  by (simp_all add: pagePresent_def)

lemma objects_upd [simp]:
  "objects (b\<lparr>undoStack := us\<rparr>) = objects b"
  "objects (b\<lparr>redoStack := rs\<rparr>) = objects b"
  by (simp_all add: objects_def currentPage_def split: option.split)

lemma addLocal_fields:
  "undoStack (addLocal obj b) = undoStack b @ [objects b]"
  "redoStack (addLocal obj b) = []"
  "objects (addLocal obj b) = (if pagePresent b then objects b @ [obj] else objects b)"
  by (simp_all add: addLocal_def pushObject_def saveToUndo_def objects_setObjects)

lemma handleUndo_fields:
  "undoStack b \<noteq> [] \<Longrightarrow> undoStack (handleUndo b) = butlast (undoStack b)"
  "undoStack b \<noteq> [] \<Longrightarrow> redoStack (handleUndo b) = redoStack b @ [objects b]"
  "undoStack b \<noteq> [] \<Longrightarrow>
     objects (handleUndo b) = (if pagePresent b then last (undoStack b) else objects b)"
  by (simp_all add: handleUndo_def Let_def objects_setObjects)

lemma handleRedo_fields:
  "redoStack b \<noteq> [] \<Longrightarrow> redoStack (handleRedo b) = butlast (redoStack b)"
  "redoStack b \<noteq> [] \<Longrightarrow> undoStack (handleRedo b) = undoStack b @ [objects b]"
  "redoStack b \<noteq> [] \<Longrightarrow>
     objects (handleRedo b) = (if pagePresent b then last (redoStack b) else objects b)"
  by (simp_all add: handleRedo_def Let_def objects_setObjects)

lemma pagePresent_addLocal [simp]: "pagePresent (addLocal obj b) = pagePresent b"
  by (simp add: addLocal_def pushObject_def saveToUndo_def)

lemma pagePresent_handleUndo [simp]: "pagePresent (handleUndo b) = pagePresent b"
  by (simp add: handleUndo_def Let_def)

lemma pushObject_stacks:
  "undoStack (pushObject objs obj b) = undoStack b @ [objs]"
  "redoStack (pushObject objs obj b) = []"
  by (simp_all add: pushObject_def saveToUndo_def)

lemma finishShape_penLike:
  "penLike (tool b) \<Longrightarrow>
   undoStack (fst (finishShape pos now b b1)) = undoStack b1 \<and>
   redoStack (fst (finishShape pos now b b1)) = redoStack b1"
  by (auto simp: finishShape_def shapeObject_def penLike_def Let_def split: option.split)

lemma finishStroke_stacks:
  "penLike (tool b) \<Longrightarrow> isDrawingRef b \<Longrightarrow> 2 \<le> length (livePointsRef b) \<Longrightarrow>
   undoStack (fst (finishStroke now b)) = undoStack b @ [objects b] \<and>
   redoStack (fst (finishStroke now b)) = []"
  by (simp add: finishStroke_def Let_def pushObject_def saveToUndo_def)

lemma shapeObject_shapeTool: "shapeTool (tool b) \<Longrightarrow> shapeObject b now st p \<noteq> None"
  by (auto simp: shapeTool_def shapeObject_def Let_def)

lemma finishStroke_shapeTool: "shapeTool (tool b) \<Longrightarrow> finishStroke now b = (b, [])"
  by (auto simp: finishStroke_def shapeTool_def penLike_def)

lemma finishShape_stacks:
  "shapeTool (tool b) \<Longrightarrow> shapeStart b \<noteq> None \<Longrightarrow> pos \<noteq> None \<Longrightarrow>
   undoStack (fst (finishShape pos now b b)) = undoStack b @ [objects b] \<and>
   redoStack (fst (finishShape pos now b b)) = []"
proof -
  assume t: "shapeTool (tool b)" and "shapeStart b \<noteq> None" and "pos \<noteq> None"
  then obtain st p where sp: "shapeStart b = Some st" "pos = Some p" by auto
  from shapeObject_shapeTool [OF t, of now st p]
  obtain obj where "shapeObject b now st p = Some obj" by auto
  with sp show ?thesis
    by (simp add: finishShape_def Let_def pushObject_stacks)
qed

lemma objects_setObjectsAt:
  "pagePresent b \<Longrightarrow> objects (setObjectsAt (currentPageId b) u b) = u (objects b)"
  using objects_setObjects [of u b] by (simp add: setObjects_def)

lemma objects_setObjectsAt_other:
  assumes "pagePresent b \<and> pg \<noteq> currentPageId b"
  shows "objects (setObjectsAt pg u b) = objects b"
proof -
  from assms obtain p where p: "find (\<lambda>p. pageId p = currentPageId b) (pages b) = Some p"
    by (auto simp: pagePresent_def)
  then have "pageId p = currentPageId b" by (auto simp: find_Some_iff)
  with assms p show ?thesis
    by (auto simp: objects_def currentPage_def setObjectsAt_def find_map_page)
qed

lemma setObjectsAt_absent:
  assumes "\<forall>p\<in>set (pages b). pageId p \<noteq> pg"
  shows "setObjectsAt pg u b = b"
  using map_page_absent [OF assms, of u] by (simp add: setObjectsAt_def)

lemma viewer_step:
  "\<not> canDraw b \<Longrightarrow> \<not> isDrawingRef b \<Longrightarrow> shapeStart b = None \<Longrightarrow>
   fst (mouseStep e b) = b \<and> filter isObjectEmit (snd (mouseStep e b)) = []"
  by (cases e)
     (simp_all add: handleMouseDown_def handleMouseMove_def handleMouseUp_def finishStroke_def
        finishShape_def emitOn_def split: option.split)

lemmas concrete_defs =
  hostBoard_def strokeBoard_def shapeBoard_def stickyBoard_def textBoard_def peerRect_def
  afterPeerEvent_def initialBoard_def handleMouseDown_def canDraw_def isReadOnly_def
  penLike_def shapeTool_def emitOn_def pushObject_def saveToUndo_def setObjects_def
  setObjectsAt_def objects_def currentPage_def onObjectAdded_def pagePresent_def Let_def

text \<open>
  The handlers that place a sticky note or a text run that protocol on the state they
  find (and reset their own input cells).
\<close>

lemma sticky_placement_is_addLocal:
  "canDraw b \<Longrightarrow> tool b = Sticky \<Longrightarrow>
   fst (handleMouseDown (Some p) now b) =
     addLocal (StickyNote (''sticky-'' @ now) (fst p) (snd p) ''Double-click to edit''
                 (stickyColor b)) b"
  by (simp add: handleMouseDown_def isReadOnly_def penLike_def shapeTool_def addLocal_def Let_def)

lemma text_placement_is_addLocal:
  "trim (textInput b) \<noteq> [] \<Longrightarrow> textPos b = Some p \<Longrightarrow>
   fst (handleTextSubmit now b) =
     (addLocal (TextShape (''txt-'' @ now) (fst p) (snd p) (textInput b) (color b) (fontSize b)
                  (fontFamily b) (bold b) (italic b)) b)\<lparr>textPos := None, textInput := []\<rparr>"
  by (simp add: handleTextSubmit_def addLocal_def Let_def)

text \<open>
  With page ids that differ from each other, redo after undo is the identity on every
  state in which undo applies.
\<close>

lemma find_unique_page:
  "distinct (map pageId ps) \<Longrightarrow> find (\<lambda>p. pageId p = c) ps = Some q \<Longrightarrow>
   p \<in> set ps \<Longrightarrow> pageId p = c \<Longrightarrow> p = q"
  by (induction ps) (auto split: if_splits)

lemma setObjects_same:
  assumes "distinct (map pageId (pages b))"
  shows "setObjects (\<lambda>_. objects b) b = b"
proof (cases "find (\<lambda>p. pageId p = currentPageId b) (pages b)")
  case None
  then have "\<forall>p\<in>set (pages b). pageId p \<noteq> currentPageId b"
    by (simp add: find_None_iff)
  then show ?thesis
    using map_page_absent [of "pages b" "currentPageId b" "\<lambda>_. objects b"]
    by (simp add: setObjects_def setObjectsAt_def)
next
  case (Some q)
  then have o: "objects b = pageObjects q"
    by (simp add: objects_def currentPage_def)
  have "map (\<lambda>p. if pageId p = currentPageId b then p\<lparr>pageObjects := objects b\<rparr> else p)
          (pages b) = pages b"
  proof (rule map_idI)
    fix p assume "p \<in> set (pages b)"
    then show "(if pageId p = currentPageId b then p\<lparr>pageObjects := objects b\<rparr> else p) = p"
      using find_unique_page [OF assms Some, of p] o by auto
  qed
  then show ?thesis by (simp add: setObjects_def setObjectsAt_def)
qed

lemma setObjects_twice:
  "setObjects (\<lambda>_. v) (setObjects (\<lambda>_. w) b) = setObjects (\<lambda>_. v) b"
  by (simp add: setObjects_def setObjectsAt_def comp_def cong: if_cong)

lemma setObjects_upd:
  "setObjects u (b\<lparr>undoStack := x\<rparr>) = (setObjects u b)\<lparr>undoStack := x\<rparr>"
  "setObjects u (b\<lparr>redoStack := y\<rparr>) = (setObjects u b)\<lparr>redoStack := y\<rparr>"
  by (simp_all add: setObjects_def setObjectsAt_def)

lemma redo_undo_identity:
  assumes d: "distinct (map pageId (pages b))" and u: "undoStack b \<noteq> []"
    and p: "pagePresent b"
  shows "handleRedo (handleUndo b) = b"
proof -
  have "setObjects (\<lambda>_. objects b) b = b" by (rule setObjects_same [OF d])
  then show ?thesis
    using u p handleUndo_fields(3) [OF u]
    by (simp add: handleRedo_def handleUndo_def Let_def objects_setObjects setObjects_upd
        setObjects_twice)
qed

section \<open>Properties of undo and redo\<close>

text \<open>
  C4. For every state of the board and every object, running the protocol of a local
  mutating action (snapshot pushed, redo cleared, object appended) and then undo gives
  back the object sequence (and the undo stack) from before the action; and redo after
  undo gives back the object sequence, the undo stack and the redo stack of the state
  the action had produced. More generally, redo after undo gives back the whole state
  whenever undo applies (the undo stack is not empty) and the pages are well formed.
\<close>

theorem undo_redo_laws:
  "objects (handleUndo (addLocal obj b)) = objects b \<and>
   undoStack (handleUndo (addLocal obj b)) = undoStack b \<and>
   objects (handleRedo (handleUndo (addLocal obj b))) = objects (addLocal obj b) \<and>
   undoStack (handleRedo (handleUndo (addLocal obj b))) = undoStack (addLocal obj b) \<and>
   redoStack (handleRedo (handleUndo (addLocal obj b))) = redoStack (addLocal obj b) \<and>
   (distinct (map pageId (pages b)) \<and> pagePresent b \<and> undoStack b \<noteq> [] \<longrightarrow>
      handleRedo (handleUndo b) = b)"
  by (simp add: handleUndo_fields handleRedo_fields addLocal_fields redo_undo_identity)

theorem undo_redo_laws_witness:
  "(distinct (map pageId (pages afterPeerEvent)) \<and> pagePresent afterPeerEvent \<and>
    undoStack afterPeerEvent \<noteq> []) \<and>
   objects (addLocal peerRect afterPeerEvent) = objects afterPeerEvent @ [peerRect] \<and>
   objects (handleUndo (addLocal peerRect afterPeerEvent)) = objects afterPeerEvent \<and>
   objects (handleRedo (handleUndo (addLocal peerRect afterPeerEvent))) =
     objects afterPeerEvent @ [peerRect] \<and>
   handleRedo (handleUndo afterPeerEvent) = afterPeerEvent"
  using undo_redo_laws [of peerRect afterPeerEvent]
  by (simp add: concrete_defs addLocal_def)

text \<open>
  C10. Undo with an empty undo stack changes nothing: the object sequence, the undo
  stack and the redo stack (indeed the whole state) stay as they are; redo with an
  empty redo stack likewise.
\<close>

theorem undo_redo_empty_noop:
  "(undoStack b = [] \<longrightarrow> handleUndo b = b) \<and> (redoStack b = [] \<longrightarrow> handleRedo b = b)"
  by (simp add: handleUndo_def handleRedo_def)

theorem undo_redo_empty_noop_witness:
  "undoStack (initialBoard None ''#00d4ff'') = [] \<and>
   handleUndo (initialBoard None ''#00d4ff'') = initialBoard None ''#00d4ff'' \<and>
   redoStack (initialBoard None ''#00d4ff'') = [] \<and>
   handleRedo (initialBoard None ''#00d4ff'') = initialBoard None ''#00d4ff''"
  using undo_redo_empty_noop [of "initialBoard None ''#00d4ff''"]
  by (simp add: initialBoard_def)

text \<open>
  A text of white space only is not placed, whichever white space it is: here a
  no-break space and an ideographic space.
\<close>

lemma blank_text_not_placed:
  "trim [0xA0, 0x3000] = [] \<and>
   handleTextSubmit now (textBoard\<lparr>textInput := [0xA0, 0x3000]\<rparr>) =
     (textBoard\<lparr>textInput := [0xA0, 0x3000]\<rparr>, [])"
  by (simp add: trim_def jsSpace_def handleTextSubmit_def)

text \<open>
  C7. Each local mutating action, when it completes (a stroke of at least one point,
  a shape, a sticky note placed by a participant who may draw, a non-blank text at a
  chosen position), leaves the undo stack extended by the object sequence it found
  and the redo stack empty, whatever the redo stack held.
\<close>

theorem mutating_action_snapshot:
  "(penLike (tool b) \<and> isDrawingRef b \<and> 2 \<le> length (livePointsRef b) \<longrightarrow>
      undoStack (fst (handleMouseUp pos now b)) = undoStack b @ [objects b] \<and>
      redoStack (fst (handleMouseUp pos now b)) = []) \<and>
   (shapeTool (tool b) \<and> shapeStart b \<noteq> None \<and> pos \<noteq> None \<longrightarrow>
      undoStack (fst (handleMouseUp pos now b)) = undoStack b @ [objects b] \<and>
      redoStack (fst (handleMouseUp pos now b)) = []) \<and>
   (canDraw b \<and> tool b = Sticky \<and> pos \<noteq> None \<longrightarrow>
      undoStack (fst (handleMouseDown pos now b)) = undoStack b @ [objects b] \<and>
      redoStack (fst (handleMouseDown pos now b)) = []) \<and>
   (trim (textInput b) \<noteq> [] \<and> textPos b \<noteq> None \<longrightarrow>
      undoStack (fst (handleTextSubmit now b)) = undoStack b @ [objects b] \<and>
      redoStack (fst (handleTextSubmit now b)) = [])"
proof (intro conjI impI)
  assume h: "penLike (tool b) \<and> isDrawingRef b \<and> 2 \<le> length (livePointsRef b)"
  then have p: "penLike (tool b)" by simp
  from h finishStroke_stacks [of b now] finishShape_penLike [OF p, of pos now "fst (finishStroke now b)"]
  show "undoStack (fst (handleMouseUp pos now b)) = undoStack b @ [objects b]"
    and "redoStack (fst (handleMouseUp pos now b)) = []"
    by (simp_all add: handleMouseUp_def Let_def)
next
  assume h: "shapeTool (tool b) \<and> shapeStart b \<noteq> None \<and> pos \<noteq> None"
  with finishShape_stacks [of b pos now] finishStroke_shapeTool [of b now]
  show "undoStack (fst (handleMouseUp pos now b)) = undoStack b @ [objects b]"
    and "redoStack (fst (handleMouseUp pos now b)) = []"
    by (simp_all add: handleMouseUp_def Let_def)
next
  assume h: "canDraw b \<and> tool b = Sticky \<and> pos \<noteq> None"
  then show "undoStack (fst (handleMouseDown pos now b)) = undoStack b @ [objects b]"
    and "redoStack (fst (handleMouseDown pos now b)) = []"
    by (auto simp: handleMouseDown_def isReadOnly_def penLike_def shapeTool_def Let_def
        pushObject_stacks)
next
  assume h: "trim (textInput b) \<noteq> [] \<and> textPos b \<noteq> None"
  then show "undoStack (fst (handleTextSubmit now b)) = undoStack b @ [objects b]"
    and "redoStack (fst (handleTextSubmit now b)) = []"
    by (auto simp: handleTextSubmit_def Let_def pushObject_stacks)
qed


theorem mutating_action_snapshot_witness:
  "redoStack hostBoard \<noteq> [] \<and>
   (penLike (tool strokeBoard) \<and> isDrawingRef strokeBoard \<and> 2 \<le> length (livePointsRef strokeBoard)) \<and>
   undoStack (fst (handleMouseUp (Some (20, 20)) ''2'' strokeBoard)) = [[]] \<and>
   redoStack (fst (handleMouseUp (Some (20, 20)) ''2'' strokeBoard)) = [] \<and>
   (shapeTool (tool shapeBoard) \<and> shapeStart shapeBoard \<noteq> None) \<and>
   undoStack (fst (handleMouseUp (Some (20, 20)) ''2'' shapeBoard)) = [[]] \<and>
   redoStack (fst (handleMouseUp (Some (20, 20)) ''2'' shapeBoard)) = [] \<and>
   (canDraw stickyBoard \<and> tool stickyBoard = Sticky) \<and>
   undoStack (fst (handleMouseDown (Some (20, 20)) ''2'' stickyBoard)) = [[]] \<and>
   redoStack (fst (handleMouseDown (Some (20, 20)) ''2'' stickyBoard)) = [] \<and>
   (trim (textInput textBoard) \<noteq> [] \<and> textPos textBoard \<noteq> None) \<and>
   undoStack (fst (handleTextSubmit ''2'' textBoard)) = [[]] \<and>
   redoStack (fst (handleTextSubmit ''2'' textBoard)) = []"
  using mutating_action_snapshot [of strokeBoard "Some (20, 20)" "''2''"]
    mutating_action_snapshot [of shapeBoard "Some (20, 20)" "''2''"]
    mutating_action_snapshot [of stickyBoard "Some (20, 20)" "''2''"]
    mutating_action_snapshot [of textBoard "Some (20, 20)" "''2''"]
  by (simp add: concrete_defs trim_def jsSpace_def)

section \<open>Peer events and undo\<close>

text \<open>
  C5, as stated, fails: the host places a sticky note, a peer's rectangle arrives and
  is appended, and the host's undo puts back the snapshot taken before the sticky
  note, which removes the peer's rectangle too.
\<close>

theorem peer_change_undone_counterexample:
  "objects afterPeerEvent =
     [StickyNote ''sticky-1'' 10 10 ''Double-click to edit'' ''#ffd43b'', peerRect] \<and>
   objects (handleUndo afterPeerEvent) = []"
  by (simp add: concrete_defs handleUndo_def)

text \<open>
  C5, amended. The listeners for \<^verbatim>\<open>drawUpdate\<close>, \<^verbatim>\<open>objectAdded\<close> and \<^verbatim>\<open>stickyUpdated\<close>
  leave the undo stack and the redo stack as they are. They act on the page whose id
  their \<^verbatim>\<open>setObjects\<close> captured when the socket effect ran: when that page is the
  current one (and is in the list) the object is appended to the local sequence (or
  the text of the sticky notes with that id replaced); when the current page is
  another page of the list the local sequence stays as it is; when no page has the
  captured id nothing changes at all. Undo with a snapshot to pop and the current page
  in the list replaces the whole local sequence by the popped snapshot, so a peer's
  change in it stays only if that snapshot holds it.
\<close>

theorem peer_event_bypasses_undo:
  "undoStack (onDrawUpdate pg d b) = undoStack b \<and>
   redoStack (onDrawUpdate pg d b) = redoStack b \<and>
   undoStack (onObjectAdded pg d b) = undoStack b \<and>
   redoStack (onObjectAdded pg d b) = redoStack b \<and>
   undoStack (onStickyUpdated pg i t b) = undoStack b \<and>
   redoStack (onStickyUpdated pg i t b) = redoStack b \<and>
   (pagePresent b \<and> pg = currentPageId b \<longrightarrow>
      objects (onDrawUpdate pg d b) = objects b @ [d] \<and>
      objects (onObjectAdded pg d b) = objects b @ [d] \<and>
      objects (onStickyUpdated pg i t b) = map (withStickyText i t) (objects b)) \<and>
   (pagePresent b \<and> pg \<noteq> currentPageId b \<longrightarrow>
      objects (onDrawUpdate pg d b) = objects b \<and>
      objects (onObjectAdded pg d b) = objects b \<and>
      objects (onStickyUpdated pg i t b) = objects b) \<and>
   ((\<forall>p\<in>set (pages b). pageId p \<noteq> pg) \<longrightarrow>
      onDrawUpdate pg d b = b \<and> onObjectAdded pg d b = b \<and> onStickyUpdated pg i t b = b) \<and>
   (pagePresent b \<and> undoStack b \<noteq> [] \<longrightarrow> objects (handleUndo b) = last (undoStack b))"
proof -
  have stacks: "undoStack (setObjectsAt pg u b) = undoStack b"
    "redoStack (setObjectsAt pg u b) = redoStack b" for u
    by (simp_all add: setObjectsAt_def)
  have cur: "objects (setObjectsAt pg u b) = u (objects b)"
    if "pagePresent b \<and> pg = currentPageId b" for u
    using that objects_setObjectsAt [of b u] by simp
  have other: "objects (setObjectsAt pg u b) = objects b"
    if "pagePresent b \<and> pg \<noteq> currentPageId b" for u
    using that by (rule objects_setObjectsAt_other)
  have gone: "setObjectsAt pg u b = b" if "\<forall>p\<in>set (pages b). pageId p \<noteq> pg" for u
    using that by (rule setObjectsAt_absent)
  show ?thesis
    unfolding onDrawUpdate_def onObjectAdded_def onStickyUpdated_def
    using stacks cur other gone handleUndo_fields(3) [of b] by simp
qed

theorem peer_event_bypasses_undo_witness:
  "(pagePresent afterPeerEvent \<and> ''page-1'' = currentPageId afterPeerEvent \<and>
    undoStack afterPeerEvent \<noteq> []) \<and>
   undoStack (onDrawUpdate ''page-1'' peerRect afterPeerEvent) = [[]] \<and>
   redoStack (onDrawUpdate ''page-1'' peerRect afterPeerEvent) = [] \<and>
   objects (onDrawUpdate ''page-1'' peerRect afterPeerEvent) =
     [StickyNote ''sticky-1'' 10 10 ''Double-click to edit'' ''#ffd43b'', peerRect, peerRect] \<and>
   objects (onStickyUpdated ''page-1'' ''sticky-1'' ''hello'' afterPeerEvent) =
     [StickyNote ''sticky-1'' 10 10 ''hello'' ''#ffd43b'', peerRect] \<and>
   objects (handleUndo afterPeerEvent) = [] \<and>
   (pagePresent twoPages \<and> ''page-1'' \<noteq> currentPageId twoPages) \<and>
   objects (onDrawUpdate ''page-1'' peerRect twoPages) = objects twoPages \<and>
   pages (onDrawUpdate ''page-1'' peerRect twoPages) \<noteq> pages twoPages \<and>
   ''page-9'' \<notin> set (map pageId (pages twoPages)) \<and>
   onDrawUpdate ''page-9'' peerRect twoPages = twoPages"
  using peer_event_bypasses_undo [of "''page-1''" peerRect afterPeerEvent "''sticky-1''" "''hello''"]
    peer_event_bypasses_undo [of "''page-1''" peerRect twoPages "''sticky-1''" "''hello''"]
    peer_event_bypasses_undo [of "''page-9''" peerRect twoPages "''sticky-1''" "''hello''"]
  by (simp add: concrete_defs twoPages_def onDrawUpdate_def)

section \<open>Viewers\<close>

text \<open>
  A viewer with no gesture in progress: no mouse event changes the state or sends
  \<^verbatim>\<open>draw\<close> or \<^verbatim>\<open>addObject\<close>.
\<close>

lemma idle_viewer_gesture:
  "\<not> canDraw b \<Longrightarrow> \<not> isDrawingRef b \<Longrightarrow> shapeStart b = None \<Longrightarrow>
   fst (runMouse es b) = b \<and> filter isObjectEmit (snd (runMouse es b)) = []"
  by (induction es) (simp_all add: viewer_step Let_def)

text \<open>
  Over a session nobody loses the right to draw, and whoever has no gesture in
  progress or may draw stays so: a viewer never has a stroke or a shape open.
\<close>

lemma setObjectsAt_cells [simp]:
  "isHost (setObjectsAt pg u b) = isHost b"
  "isAllowedToDraw (setObjectsAt pg u b) = isAllowedToDraw b"
  "isDrawingRef (setObjectsAt pg u b) = isDrawingRef b"
  "shapeStart (setObjectsAt pg u b) = shapeStart b"
  by (simp_all add: setObjectsAt_def)

lemma gestureOk_cells:
  "isHost b' = isHost b \<Longrightarrow> isAllowedToDraw b' = isAllowedToDraw b \<Longrightarrow>
   isDrawingRef b' = isDrawingRef b \<Longrightarrow> shapeStart b' = shapeStart b \<Longrightarrow>
   gestureOk b \<Longrightarrow> gestureOk b'"
  by (simp add: gestureOk_def canDraw_def)

lemma gestureOk_mouse: "gestureOk b \<Longrightarrow> gestureOk (fst (mouseStep e b))"
proof (cases "canDraw b")
  case False
  assume "gestureOk b"
  with False viewer_step [of b e] show ?thesis by (simp add: gestureOk_def)
next
  case True
  have "isHost (fst (mouseStep e b)) = isHost b \<and>
        isAllowedToDraw (fst (mouseStep e b)) = isAllowedToDraw b"
    by (cases e)
       (auto simp: handleMouseDown_def handleMouseMove_def handleMouseUp_def finishStroke_def
          finishShape_def pushObject_def saveToUndo_def setObjects_def Let_def
          split: option.split)
  with True show ?thesis by (simp add: gestureOk_def canDraw_def)
qed

lemma gestureOk_step: "gestureOk b \<Longrightarrow> gestureOk (fst (boardStep e b))"
proof (cases e)
  case (Mouse m)
  assume "gestureOk b"
  with Mouse show ?thesis by (simp add: gestureOk_mouse)
next
  case (Received pg ev)
  assume "gestureOk b"
  then show ?thesis
    unfolding Received
    by (cases ev)
       (auto intro!: gestureOk_cells [of _ b]
          simp: onServerEvent_def onDrawUpdate_def onObjectAdded_def)
next
  case HostResolved
  then show ?thesis by (simp add: gestureOk_def canDraw_def)
next
  case (SelectTool t)
  assume "gestureOk b"
  with SelectTool show ?thesis by (auto intro: gestureOk_cells [of _ b])
next
  case Undo
  assume "gestureOk b"
  with Undo show ?thesis
    by (auto intro!: gestureOk_cells [of _ b] simp: handleUndo_def setObjects_def Let_def)
next
  case Redo
  assume "gestureOk b"
  with Redo show ?thesis
    by (auto intro!: gestureOk_cells [of _ b] simp: handleRedo_def setObjects_def Let_def)
next
  case (TextSubmit now)
  assume "gestureOk b"
  with TextSubmit show ?thesis
    by (auto intro!: gestureOk_cells [of _ b]
        simp: handleTextSubmit_def pushObject_def saveToUndo_def setObjects_def Let_def
        split: option.split)
next
  case (OtherUpdate f)
  assume "gestureOk b"
  with OtherUpdate show ?thesis
    by (auto intro!: gestureOk_cells [of _ b] simp: keepGestureCells_def)
qed

lemma gestureOk_run: "gestureOk b \<Longrightarrow> gestureOk (fst (runBoard evs b))"
  by (induction evs arbitrary: b) (simp_all add: Let_def gestureOk_step)

lemma gestureOk_initial: "gestureOk (initialBoard nm col)"
  by (simp add: gestureOk_def initialBoard_def)

text \<open>
  C8. Whatever has happened in a participant's session, if the participant is a viewer
  (\<^verbatim>\<open>canDraw\<close> is false), then any sequence of mouse down, move and up events, with
  any tool, leaves the state as it is (no object is added to the local sequence) and
  sends neither \<^verbatim>\<open>draw\<close> nor \<^verbatim>\<open>addObject\<close>. The check is the board's own: the
  coordinator relays what it is sent.
\<close>

theorem viewer_emits_nothing:
  "\<not> canDraw (fst (runBoard evs (initialBoard nm col))) \<Longrightarrow>
   fst (runMouse es (fst (runBoard evs (initialBoard nm col)))) =
     fst (runBoard evs (initialBoard nm col)) \<and>
   objects (fst (runMouse es (fst (runBoard evs (initialBoard nm col))))) =
     objects (fst (runBoard evs (initialBoard nm col))) \<and>
   filter isObjectEmit (snd (runMouse es (fst (runBoard evs (initialBoard nm col))))) = []"
proof -
  let ?b = "fst (runBoard evs (initialBoard nm col))"
  assume v: "\<not> canDraw ?b"
  have "gestureOk ?b" by (rule gestureOk_run [OF gestureOk_initial])
  with v have "\<not> isDrawingRef ?b" and "shapeStart ?b = None" by (simp_all add: gestureOk_def)
  with v idle_viewer_gesture [of ?b es] show ?thesis by simp
qed

theorem viewer_emits_nothing_witness:
  "\<not> canDraw viewerSession \<and>
   objects viewerSession = [peerRect] \<and>
   fst (runMouse [MouseDown (Some (1, 1)) ''1'', MouseMove (Some (2, 2)),
                  MouseUp (Some (2, 2)) ''2''] viewerSession) = viewerSession \<and>
   filter isObjectEmit
     (snd (runMouse [MouseDown (Some (1, 1)) ''1'', MouseMove (Some (2, 2)),
                     MouseUp (Some (2, 2)) ''2''] viewerSession)) = []"
proof -
  have v: "\<not> canDraw viewerSession" and o: "objects viewerSession = [peerRect]"
    by (simp_all add: viewerSession_def initialBoard_def canDraw_def handleMouseDown_def
        handleMouseMove_def onServerEvent_def onObjectAdded_def setObjectsAt_def
        keepGestureCells_def emitOn_def penLike_def objects_def currentPage_def Let_def)
  from viewer_emits_nothing [OF v [unfolded viewerSession_def],
      of "[MouseDown (Some (1, 1)) ''1'', MouseMove (Some (2, 2)), MouseUp (Some (2, 2)) ''2'']",
      folded viewerSession_def] v o
  show ?thesis by simp
qed



section \<open>The coordinator: relaying\<close>

lemma lobby_eval:
  "lobby =
    \<lparr>roomUsers =
      [(''abc123'',
        [(''H'', \<lparr>uid = ''H'', uname = ''Hana'', ucolor = ''#ffd43b''\<rparr>),
         (''V'', \<lparr>uid = ''V'', uname = ''Vik'', ucolor = ''#00d4ff''\<rparr>),
         (''W'', \<lparr>uid = ''W'', uname = ''User-W'', ucolor = ''#00d4ff''\<rparr>)]),
       (''other'', [(''X'', \<lparr>uid = ''X'', uname = ''Xu'', ucolor = ''#00d4ff''\<rparr>)])],
     sockets =
      [(''H'', \<lparr>currentRoom = Some ''abc123'', sockUserName = Some ''Hana'',
               sockUserColor = Some ''#ffd43b'', joinedRooms = [''abc123'', ''H'']\<rparr>),
       (''V'', \<lparr>currentRoom = Some ''abc123'', sockUserName = Some ''Vik'',
               sockUserColor = Some ''#00d4ff'', joinedRooms = [''abc123'', ''V'']\<rparr>),
       (''W'', \<lparr>currentRoom = Some ''abc123'', sockUserName = Some ''User-W'',
               sockUserColor = Some ''#00d4ff'', joinedRooms = [''abc123'', ''W'']\<rparr>),
       (''X'', \<lparr>currentRoom = Some ''other'', sockUserName = Some ''Xu'',
               sockUserColor = Some ''#00d4ff'', joinedRooms = [''other'', ''X'']\<rparr>)]\<rparr>"
  by code_simp

lemma lobby_members: "roomMembers lobby ''abc123'' = [''H'', ''V'', ''W'']"
  by (simp add: lobby_eval roomMembers_def)

lemma lobby_host_room: "map_of (sockets lobby) ''H'' =
   Some \<lparr>currentRoom = Some ''abc123'', sockUserName = Some ''Hana'',
               sockUserColor = Some ''#ffd43b'', joinedRooms = [''abc123'', ''H'']\<rparr>"
  by (simp add: lobby_eval)

text \<open>
  What the relaying listeners send: the payload as it came, to every socket in the
  sender's current room (for chat: in the room the payload names) but the sender.
\<close>

lemma relay_recipients:
  assumes "map_of (sockets s) sid = Some k" and "currentRoom k = Some r" and "r \<noteq> []"
  shows "step s (sid, Draw d) =
           (s, map (\<lambda>t. (t, DrawUpdate d)) (filter (\<lambda>t. t \<noteq> sid) (roomMembers s r)))"
    and "step s (sid, AddObject d) =
           (s, map (\<lambda>t. (t, ObjectAdded d)) (filter (\<lambda>t. t \<noteq> sid) (roomMembers s r)))"
  using assms by (simp_all add: step_def Let_def draw_def addObject_def socketTo_def)

lemma chat_recipients:
  assumes "map_of (sockets s) sid = Some k" and "r \<noteq> []"
  shows "step s (sid, ChatMessage (Some r) msg) =
           (s, map (\<lambda>t. (t, ChatMessageOut msg)) (filter (\<lambda>t. t \<noteq> sid) (roomMembers s r)))"
  using assms by (simp add: step_def Let_def chatMessageIn_def socketTo_def)

text \<open>
  C9. A cursor, draw or add-object event of a connection whose socket holds no room
  id (undefined or empty), and a chat event whose payload has none, leave the state
  as it is and send nothing.
\<close>

theorem missing_room_dropped:
  "(\<not> truthy (currentRoomOf s sid) \<longrightarrow>
      step s (sid, CursorMove x y nm col) = (s, []) \<and>
      step s (sid, Draw d) = (s, []) \<and>
      step s (sid, AddObject d) = (s, [])) \<and>
   (\<not> truthy boardId \<longrightarrow> step s (sid, ChatMessage boardId msg) = (s, []))"
  by (simp add: step_def currentRoomOf_def cursorMove_def draw_def addObject_def
      chatMessageIn_def split: option.split)

theorem missing_room_dropped_witness:
  "\<not> truthy (currentRoomOf (fst (step lobby (''N'', Connect))) ''N'') \<and>
   step (fst (step lobby (''N'', Connect))) (''N'', Draw peerRect) =
     (fst (step lobby (''N'', Connect)), []) \<and>
   \<not> truthy None \<and>
   step lobby (''H'', ChatMessage None
      \<lparr>chatUserId = ''H'', chatName = ''Hana'', chatText = ''hi'', chatTime = ''10:00'',
       chatColor = ''#ffd43b''\<rparr>) = (lobby, [])"
  using missing_room_dropped [of "fst (step lobby (''N'', Connect))" "''N''" 0 0 None None
      peerRect None]
    missing_room_dropped [of lobby "''H''" 0 0 None None peerRect None
      "\<lparr>chatUserId = ''H'', chatName = ''Hana'', chatText = ''hi'', chatTime = ''10:00'',
        chatColor = ''#ffd43b''\<rparr>"]
  by (simp add: step_def Let_def lobby_eval currentRoomOf_def newSocket_def draw_def
      chatMessageIn_def)

text \<open>
  C1. The file has no listener for \<^verbatim>\<open>setDrawPermission\<close>: with host \<open>H\<close> and
  viewers \<open>V\<close>, \<open>W\<close> in one room, the host's grant and the host's revocation
  change nothing and reach nobody.
\<close>

theorem setDrawPermission_ignored:
  "roomMembers lobby ''abc123'' = [''H'', ''V'', ''W''] \<and>
   step lobby (''H'', SetDrawPermission ''V'' True (Some ''abc123'')) = (lobby, []) \<and>
   step lobby (''H'', SetDrawPermission ''V'' False (Some ''abc123'')) = (lobby, [])"
  by (simp add: lobby_members) (simp add: step_def Let_def split: option.split)

text \<open>
  C2. A sticky note added by \<open>H\<close> reaches \<open>V\<close> and \<open>W\<close> as it is, and not
  \<open>H\<close> nor \<open>X\<close>; the later update of its text has no listener and reaches nobody.
\<close>

theorem stickyUpdate_not_relayed:
  "roomMembers lobby ''abc123'' = [''H'', ''V'', ''W''] \<and>
   snd (step lobby (''H'', AddObject (StickyNote ''sticky-1'' 10 10 ''Double-click to edit'' ''#ffd43b''))) =
     [(''V'', ObjectAdded (StickyNote ''sticky-1'' 10 10 ''Double-click to edit'' ''#ffd43b'')),
      (''W'', ObjectAdded (StickyNote ''sticky-1'' 10 10 ''Double-click to edit'' ''#ffd43b''))] \<and>
   step lobby (''H'', StickyUpdate ''sticky-1'' ''hello'') = (lobby, [])"
  by (simp add: lobby_members step_def Let_def lobby_host_room addObject_def socketTo_def)

section \<open>The coordinator: the registry\<close>

lemma list_all_update:
  "list_all P al \<Longrightarrow> P (k, v) \<Longrightarrow> list_all P (AList.update k v al)"
  by (induction al) auto

lemma list_all_delete: "list_all P al \<Longrightarrow> list_all P (AList.delete k al)"
  by (induction al) auto

text \<open>
  No listener leaves a room entry without keys behind: joining stores a user in the
  entry it creates or finds, and leaving deletes the entry it has emptied.
\<close>

lemma joinRoom_entriesNonEmpty:
  "entriesNonEmpty s \<Longrightarrow> entriesNonEmpty (fst (joinRoom sid k r nm col s))"
  by (simp add: entriesNonEmpty_def joinRoom_def Let_def list_all_update)

lemma disconnect_entriesNonEmpty:
  "entriesNonEmpty s \<Longrightarrow> entriesNonEmpty (fst (disconnect sid k s))"
  by (auto simp: entriesNonEmpty_def disconnect_def Let_def list_all_update list_all_delete
      AList.delete_update_same split: option.split)

lemma step_entriesNonEmpty: "entriesNonEmpty s \<Longrightarrow> entriesNonEmpty (fst (step s ev))"
proof -
  assume ok: "entriesNonEmpty s"
  obtain sid e where ev: "ev = (sid, e)" by (cases ev)
  have del: "entriesNonEmpty (s\<lparr>sockets := AList.delete sid (sockets s)\<rparr>)"
    using ok by (simp add: entriesNonEmpty_def)
  show ?thesis
    using ok joinRoom_entriesNonEmpty [OF ok] disconnect_entriesNonEmpty [OF del]
    by (cases e)
       (auto simp: ev step_def Let_def cursorMove_def draw_def addObject_def chatMessageIn_def
          entriesNonEmpty_def split: option.split)
qed

lemma registry_entries_nonempty: "entriesNonEmpty (fst (run emptyServer evs))"
proof -
  have "entriesNonEmpty s \<Longrightarrow> entriesNonEmpty (fst (run s evs))" for s
    by (induction evs arbitrary: s) (simp_all add: Let_def step_entriesNonEmpty)
  then show ?thesis by (simp add: entriesNonEmpty_def emptyServer_def)
qed

text \<open>
  When the connection that leaves is the only key of the entry of its current room,
  the entry goes.
\<close>

lemma last_member_leaves:
  assumes "map_of (sockets s) sid = Some k" and "currentRoom k = Some r" and "r \<noteq> []"
    and "usersOf s r = Some m" and "AList.delete sid m = []"
  shows "usersOf (fst (step s (sid, Disconnect))) r = None"
  using assms
  by (simp add: step_def Let_def disconnect_def usersOf_def AList.delete_conv')

text \<open>
  As long as every connection joins one room at most, the registry is exact after
  every event: the connections stored under a room are those whose current room it is.
\<close>

lemma present_iff: "sid \<in> present s r \<longleftrightarrow> currentRoomOf s sid = Some r"
proof -
  have "currentRoomOf s sid = Some r \<Longrightarrow> sid \<in> fst ` set (sockets s)"
    by (force simp: currentRoomOf_def split: option.splits dest: map_of_SomeD)
  then show ?thesis by (auto simp: present_def)
qed

lemma keys_delete: "fst ` set (AList.delete k al) = fst ` set al - {k}"
  using AList.delete_keys [of k al] by (metis set_map set_removeAll)

lemma exact_connect:
  assumes "exact s" and "map_of (sockets s) sid = None"
  shows "exact (s\<lparr>sockets := sockets s @ [(sid, newSocket sid)]\<rparr>)"
proof -
  have "currentRoomOf (s\<lparr>sockets := sockets s @ [(sid, newSocket sid)]\<rparr>) t = currentRoomOf s t"
    for t
    using assms(2) by (auto simp: currentRoomOf_def newSocket_def map_add_def split: option.splits)
  with assms(1) show ?thesis
    by (auto simp: present_iff set_eq_iff registered_def usersOf_def)
qed

lemma exact_joinRoom:
  assumes ex: "exact s" and k: "map_of (sockets s) sid = Some k" and c: "currentRoom k = None"
    and r: "r \<noteq> []"
  shows "exact (fst (joinRoom sid k r nm col s))"
proof -
  let ?s = "fst (joinRoom sid k r nm col s)"
  have cur: "currentRoomOf ?s t = (if t = sid then Some r else currentRoomOf s t)" for t
    by (simp add: joinRoom_def Let_def currentRoomOf_def AList.update_conv')
  have reg: "registered ?s q = (if q = r then insert sid (registered s r) else registered s q)"
    for q
    by (auto simp: joinRoom_def Let_def registered_def usersOf_def AList.update_conv'
        AList.dom_update split: option.splits)
  have none: "currentRoomOf s sid = None" using k c by (simp add: currentRoomOf_def)
  from ex have e1: "\<And>q t. t \<in> registered s q \<longleftrightarrow> currentRoomOf s t = Some q"
    and e2: "\<And>t. currentRoomOf s t \<noteq> Some []"
    by (auto simp: present_iff set_eq_iff)
  have "t \<in> registered ?s q \<longleftrightarrow> currentRoomOf ?s t = Some q" for t q
    using e1 [of t q] e1 [of t r] none by (auto simp: reg cur)
  moreover have "currentRoomOf ?s t \<noteq> Some []" for t
    using e2 [of t] r by (auto simp: cur)
  ultimately show ?thesis by (auto simp: present_iff set_eq_iff)
qed

lemma exact_disconnect:
  assumes ex: "exact s" and k: "map_of (sockets s) sid = Some k"
  shows "exact (fst (disconnect sid k (s\<lparr>sockets := AList.delete sid (sockets s)\<rparr>)))"
proof -
  let ?gone = "s\<lparr>sockets := AList.delete sid (sockets s)\<rparr>"
  let ?s = "fst (disconnect sid k ?gone)"
  from ex have e1: "\<And>q t. t \<in> registered s q \<longleftrightarrow> currentRoomOf s t = Some q"
    and e2: "\<And>t. currentRoomOf s t \<noteq> Some []"
    by (auto simp: present_iff set_eq_iff)
  have cs: "currentRoomOf s sid = currentRoom k" using k by (simp add: currentRoomOf_def)
  have sock: "sockets ?s = AList.delete sid (sockets s)"
    by (simp add: disconnect_def Let_def split: option.split)
  have cur: "currentRoomOf ?s t = (if t = sid then None else currentRoomOf s t)" for t
    by (simp add: currentRoomOf_def sock AList.delete_conv')
  have reg: "registered ?s q = registered s q - {sid}" for q
  proof (cases "currentRoom k")
    case None
    then have "?s = ?gone" by (simp add: disconnect_def)
    moreover have "sid \<notin> registered s q" using e1 [of sid q] cs None by simp
    ultimately show ?thesis by (simp add: registered_def usersOf_def)
  next
    case (Some r)
    with e2 [of sid] cs have rne: "r \<noteq> []" by auto
    from e1 [of sid r] cs Some obtain m where m: "usersOf s r = Some m"
      by (auto simp: registered_def split: option.splits)
    have other: "sid \<notin> registered s q" if "q \<noteq> r" using e1 [of sid q] cs Some that by simp
    show ?thesis
    proof (cases "q = r")
      case True
      have dk: "fst ` set (AList.delete sid m) = fst ` set m - {sid}" by (rule keys_delete)
      show ?thesis
      proof (cases "AList.delete sid m = []")
        case e: True
        with dk have "fst ` set m - {sid} = {}" by simp
        with True m Some rne e show ?thesis
          by (simp add: disconnect_def Let_def registered_def usersOf_def AList.delete_conv')
      next
        case e: False
        with True m Some rne dk show ?thesis
          by (simp add: disconnect_def Let_def registered_def usersOf_def AList.update_conv')
      qed
    next
      case False
      with m Some rne other [OF False] show ?thesis
        by (auto simp: disconnect_def Let_def registered_def usersOf_def AList.update_conv'
            AList.delete_conv')
    qed
  qed
  have "t \<in> registered ?s q \<longleftrightarrow> currentRoomOf ?s t = Some q" for t q
    using e1 [of t q] by (auto simp: reg cur)
  moreover have "currentRoomOf ?s t \<noteq> Some []" for t
    using e2 [of t] by (auto simp: cur)
  ultimately show ?thesis by (auto simp: present_iff set_eq_iff)
qed

lemma exact_step:
  assumes "exact s" and "joinsOnce s [ev]"
  shows "exact (fst (step s ev))"
proof -
  obtain sid e where ev: "ev = (sid, e)" by (cases ev)
  show ?thesis
  proof (cases "map_of (sockets s) sid")
    case None
    with assms(1) exact_connect [OF assms(1) None] show ?thesis
      by (cases e) (simp_all add: ev step_def)
  next
    case (Some k)
    have j: "exact (fst (joinRoom sid k r nm col s))"
      if "r \<noteq> []" and "currentRoomOf s sid = None" for r nm col
      using exact_joinRoom [OF assms(1) Some _ that(1)] that(2) Some
      by (simp add: currentRoomOf_def)
    from Some assms j exact_disconnect [OF assms(1) Some] show ?thesis
      by (cases e)
         (simp_all add: ev step_def cursorMove_def draw_def addObject_def chatMessageIn_def)
  qed
qed

lemma exact_run: "exact s \<Longrightarrow> joinsOnce s evs \<Longrightarrow> exact (fst (run s evs))"
proof (induction evs arbitrary: s)
  case Nil
  then show ?case by simp
next
  case (Cons ev evs)
  from Cons.prems have "exact (fst (step s ev))" by (intro exact_step) simp_all
  with Cons show ?case by (simp add: Let_def)
qed

lemma registry_exact_when_joining_once:
  assumes "joinsOnce emptyServer evs"
  shows "registered (fst (run emptyServer evs)) r = present (fst (run emptyServer evs)) r"
proof -
  have "exact emptyServer"
    by (simp add: registered_def present_def usersOf_def emptyServer_def currentRoomOf_def)
  from exact_run [OF this assms] show ?thesis by simp
qed

text \<open>
  C3. \<open>S\<close> joins room \<open>A\<close>, then room \<open>B\<close>, and disconnects: the listener cleans
  room \<open>B\<close> only. When \<open>T\<close>, then the only connection, joins room \<open>A\<close>, the member
  list it is sent names \<open>S\<close> as well.
\<close>

theorem stale_member_broadcast:
  "map fst (sockets (fst (run rehomedGone
      [(''T'', Connect), (''T'', JoinRoom ''A'' (Some ''Tom'') None)]))) = [''T''] \<and>
   snd (run rehomedGone [(''T'', Connect), (''T'', JoinRoom ''A'' (Some ''Tom'') None)]) =
     [(''T'', RoomUsers [\<lparr>uid = ''S'', uname = ''Sam'', ucolor = ''#00d4ff''\<rparr>,
                        \<lparr>uid = ''T'', uname = ''Tom'', ucolor = ''#00d4ff''\<rparr>])]"
  by code_simp

text \<open>
  C6. In the same session, once \<open>S\<close> is gone no connection is left, and the entry of
  room \<open>A\<close> is still in the registry.
\<close>

theorem rehomed_entry_remains:
  "sockets rehomedGone = [] \<and>
   roomUsers rehomedGone =
     [(''A'', [(''S'', \<lparr>uid = ''S'', uname = ''Sam'', ucolor = ''#00d4ff''\<rparr>)])]"
  by code_simp

end
